theory Spec2Isabelle
  imports Complex_Main "HOL-Library.Word"
begin

unbundle bit_operations_syntax

section \<open>The Vulkan interface the program is written against\<close>

text \<open>
  The program (\<^verbatim>\<open>main.c\<close>, and \<^verbatim>\<open>main.c++\<close> with the same statements) includes
  \<^verbatim>\<open>vulkan/vulkan.h\<close>. The constants below carry the values of that header
  (Vulkan 1.0). Enumerations whose numeric value the program never computes with are
  datatypes; a field the source leaves out of an initialiser is zero in C, and is
  written here as the enumerator of value 0. Bit masks are 32-bit words.
\<close>

type_synonym VkResult = int
type_synonym VkFlags = "32 word"
type_synonym VkDeviceSize = "64 word"

definition VK_SUCCESS :: VkResult where "VK_SUCCESS = 0"
definition VK_TRUE :: "32 word" where "VK_TRUE = 1"
definition VK_MAX_MEMORY_TYPES :: nat where "VK_MAX_MEMORY_TYPES = 32"
definition VK_MAX_MEMORY_HEAPS :: nat where "VK_MAX_MEMORY_HEAPS = 16"
definition VK_REMAINING_MIP_LEVELS :: "32 word" where "VK_REMAINING_MIP_LEVELS = NOT 0"
definition VK_REMAINING_ARRAY_LAYERS :: "32 word" where "VK_REMAINING_ARRAY_LAYERS = NOT 0"
definition VK_WHOLE_SIZE :: VkDeviceSize where "VK_WHOLE_SIZE = NOT 0"
definition UINT64_MAX :: "64 word" where "UINT64_MAX = 0xFFFFFFFFFFFFFFFF"

definition VK_QUEUE_GRAPHICS_BIT :: VkFlags where "VK_QUEUE_GRAPHICS_BIT = 0x1"
definition VK_QUEUE_COMPUTE_BIT :: VkFlags where "VK_QUEUE_COMPUTE_BIT = 0x2"
definition VK_QUEUE_TRANSFER_BIT :: VkFlags where "VK_QUEUE_TRANSFER_BIT = 0x4"

definition VK_MEMORY_PROPERTY_DEVICE_LOCAL_BIT :: VkFlags where
  "VK_MEMORY_PROPERTY_DEVICE_LOCAL_BIT = 0x1"
definition VK_MEMORY_PROPERTY_HOST_VISIBLE_BIT :: VkFlags where
  "VK_MEMORY_PROPERTY_HOST_VISIBLE_BIT = 0x2"
definition VK_MEMORY_PROPERTY_HOST_COHERENT_BIT :: VkFlags where
  "VK_MEMORY_PROPERTY_HOST_COHERENT_BIT = 0x4"
definition VK_MEMORY_PROPERTY_HOST_CACHED_BIT :: VkFlags where
  "VK_MEMORY_PROPERTY_HOST_CACHED_BIT = 0x8"
definition VK_MEMORY_PROPERTY_LAZILY_ALLOCATED_BIT :: VkFlags where
  "VK_MEMORY_PROPERTY_LAZILY_ALLOCATED_BIT = 0x10"
definition VK_MEMORY_HEAP_DEVICE_LOCAL_BIT :: VkFlags where
  "VK_MEMORY_HEAP_DEVICE_LOCAL_BIT = 0x1"

definition VK_IMAGE_USAGE_TRANSFER_SRC_BIT :: VkFlags where
  "VK_IMAGE_USAGE_TRANSFER_SRC_BIT = 0x1"
definition VK_IMAGE_USAGE_TRANSFER_DST_BIT :: VkFlags where
  "VK_IMAGE_USAGE_TRANSFER_DST_BIT = 0x2"
definition VK_IMAGE_USAGE_SAMPLED_BIT :: VkFlags where
  "VK_IMAGE_USAGE_SAMPLED_BIT = 0x4"
definition VK_IMAGE_USAGE_COLOR_ATTACHMENT_BIT :: VkFlags where
  "VK_IMAGE_USAGE_COLOR_ATTACHMENT_BIT = 0x10"
definition VK_IMAGE_ASPECT_COLOR_BIT :: VkFlags where
  "VK_IMAGE_ASPECT_COLOR_BIT = 0x1"
definition VK_SAMPLE_COUNT_1_BIT :: VkFlags where
  "VK_SAMPLE_COUNT_1_BIT = 0x1"

definition VK_ACCESS_COLOR_ATTACHMENT_WRITE_BIT :: VkFlags where
  "VK_ACCESS_COLOR_ATTACHMENT_WRITE_BIT = 0x100"
definition VK_ACCESS_TRANSFER_READ_BIT :: VkFlags where
  "VK_ACCESS_TRANSFER_READ_BIT = 0x800"
definition VK_ACCESS_TRANSFER_WRITE_BIT :: VkFlags where
  "VK_ACCESS_TRANSFER_WRITE_BIT = 0x1000"
definition VK_ACCESS_HOST_READ_BIT :: VkFlags where
  "VK_ACCESS_HOST_READ_BIT = 0x2000"

definition VK_PIPELINE_STAGE_COLOR_ATTACHMENT_OUTPUT_BIT :: VkFlags where
  "VK_PIPELINE_STAGE_COLOR_ATTACHMENT_OUTPUT_BIT = 0x400"
definition VK_PIPELINE_STAGE_TRANSFER_BIT :: VkFlags where
  "VK_PIPELINE_STAGE_TRANSFER_BIT = 0x1000"
definition VK_PIPELINE_STAGE_HOST_BIT :: VkFlags where
  "VK_PIPELINE_STAGE_HOST_BIT = 0x4000"

definition VK_COMMAND_BUFFER_USAGE_ONE_TIME_SUBMIT_BIT :: VkFlags where
  "VK_COMMAND_BUFFER_USAGE_ONE_TIME_SUBMIT_BIT = 0x1"

datatype VkFormat = VK_FORMAT_UNDEFINED | VK_FORMAT_R8G8B8A8_UNORM
datatype VkImageType = VK_IMAGE_TYPE_1D | VK_IMAGE_TYPE_2D | VK_IMAGE_TYPE_3D
datatype VkImageViewType = VK_IMAGE_VIEW_TYPE_1D | VK_IMAGE_VIEW_TYPE_2D | VK_IMAGE_VIEW_TYPE_3D
datatype VkImageTiling = VK_IMAGE_TILING_OPTIMAL | VK_IMAGE_TILING_LINEAR
datatype VkSharingMode = VK_SHARING_MODE_EXCLUSIVE | VK_SHARING_MODE_CONCURRENT
datatype VkImageLayout =
    VK_IMAGE_LAYOUT_UNDEFINED
  | VK_IMAGE_LAYOUT_GENERAL
  | VK_IMAGE_LAYOUT_COLOR_ATTACHMENT_OPTIMAL
  | VK_IMAGE_LAYOUT_DEPTH_STENCIL_ATTACHMENT_OPTIMAL
  | VK_IMAGE_LAYOUT_DEPTH_STENCIL_READ_ONLY_OPTIMAL
  | VK_IMAGE_LAYOUT_SHADER_READ_ONLY_OPTIMAL
  | VK_IMAGE_LAYOUT_TRANSFER_SRC_OPTIMAL
  | VK_IMAGE_LAYOUT_TRANSFER_DST_OPTIMAL
  | VK_IMAGE_LAYOUT_PREINITIALIZED
datatype VkAttachmentLoadOp =
    VK_ATTACHMENT_LOAD_OP_LOAD | VK_ATTACHMENT_LOAD_OP_CLEAR | VK_ATTACHMENT_LOAD_OP_DONT_CARE
datatype VkAttachmentStoreOp = VK_ATTACHMENT_STORE_OP_STORE | VK_ATTACHMENT_STORE_OP_DONT_CARE
datatype VkPipelineBindPoint = VK_PIPELINE_BIND_POINT_GRAPHICS | VK_PIPELINE_BIND_POINT_COMPUTE
datatype VkSubpassContents =
    VK_SUBPASS_CONTENTS_INLINE | VK_SUBPASS_CONTENTS_SECONDARY_COMMAND_BUFFERS
datatype VkCommandBufferLevel =
    VK_COMMAND_BUFFER_LEVEL_PRIMARY | VK_COMMAND_BUFFER_LEVEL_SECONDARY

subsection \<open>Handles: the program's global variables\<close>

text \<open>
  The driver writes an opaque handle into each global; the model names a handle by the
  global variable that holds it.
\<close>

datatype VkImage = write_image | read_image
datatype VkImageView = write_image_view | read_image_view
datatype VkDeviceMemory = write_image_memory | read_image_memory
datatype VkRenderPass = render_pass
datatype VkFramebuffer = framebuffer
datatype VkCommandPool = command_pool
datatype VkCommandBuffer = command_buffer
datatype VkQueue = queue
datatype VkFence = VK_NULL_HANDLE | fence

subsection \<open>Structures read from the driver\<close>

record VkLayerProperties =
  layerName :: string

record VkPhysicalDeviceProperties =
  apiVersion :: "32 word"
  driverVersion :: "32 word"
  vendorID :: "32 word"
  deviceID :: "32 word"
  deviceName :: string

record VkMemoryType =
  propertyFlags :: VkFlags
  heapIndex :: "32 word"

record VkMemoryHeap =
  heap_size :: VkDeviceSize
  heap_flags :: VkFlags

text \<open>
  \<open>memoryTypes\<close> and \<open>memoryHeaps\<close> are the C arrays of \<open>VK_MAX_MEMORY_TYPES\<close> and
  \<open>VK_MAX_MEMORY_HEAPS\<close> entries; the two counts say how many entries are valid.
\<close>

record VkPhysicalDeviceMemoryProperties =
  memoryTypeCount :: "32 word"
  memoryTypes :: "VkMemoryType list"
  memoryHeapCount :: "32 word"
  memoryHeaps :: "VkMemoryHeap list"

record VkQueueFamilyProperties =
  queueFlags :: VkFlags

record VkMemoryRequirements =
  req_size :: VkDeviceSize
  req_alignment :: VkDeviceSize
  memoryTypeBits :: "32 word"

subsection \<open>Structures passed to the driver\<close>

record VkExtent2D =
  width :: "32 word"
  height :: "32 word"

record VkExtent3D = VkExtent2D +
  depth :: "32 word"

record VkOffset2D =
  offset_x :: int
  offset_y :: int

record VkOffset3D = VkOffset2D +
  offset_z :: int

record VkRect2D =
  rect_offset :: VkOffset2D
  rect_extent :: VkExtent2D

record VkInstanceCreateInfo =
  enabledLayerCount :: "32 word"
  ppEnabledLayerNames :: "string list"

record VkDeviceQueueCreateInfo =
  dq_queueFamilyIndex :: "32 word"
  dq_queueCount :: "32 word"
  dq_pQueuePriorities :: "real list"

record VkDeviceCreateInfo =
  queueCreateInfoCount :: "32 word"
  pQueueCreateInfos :: "VkDeviceQueueCreateInfo list"

record VkImageCreateInfo =
  ic_format :: VkFormat
  ic_imageType :: VkImageType
  ic_extent :: VkExtent3D
  ic_tiling :: VkImageTiling
  ic_usage :: VkFlags
  ic_initialLayout :: VkImageLayout
  ic_mipLevels :: "32 word"
  ic_arrayLayers :: "32 word"
  ic_samples :: VkFlags
  ic_sharingMode :: VkSharingMode

record VkMemoryAllocateInfo =
  allocationSize :: VkDeviceSize
  memoryTypeIndex :: "32 word"

record VkImageSubresourceRange =
  sr_aspectMask :: VkFlags
  sr_baseMipLevel :: "32 word"
  sr_levelCount :: "32 word"
  sr_baseArrayLayer :: "32 word"
  sr_layerCount :: "32 word"

record VkImageViewCreateInfo =
  iv_image :: VkImage
  iv_viewType :: VkImageViewType
  iv_format :: VkFormat
  iv_subresourceRange :: VkImageSubresourceRange

record VkAttachmentDescription =
  ad_format :: VkFormat
  ad_samples :: VkFlags
  ad_loadOp :: VkAttachmentLoadOp
  ad_storeOp :: VkAttachmentStoreOp
  ad_initialLayout :: VkImageLayout
  ad_finalLayout :: VkImageLayout

record VkAttachmentReference =
  ar_attachment :: "32 word"
  ar_layout :: VkImageLayout

record VkSubpassDescription =
  pipelineBindPoint :: VkPipelineBindPoint
  colorAttachmentCount :: "32 word"
  pColorAttachments :: "VkAttachmentReference list"

record VkRenderPassCreateInfo =
  rp_attachmentCount :: "32 word"
  rp_pAttachments :: "VkAttachmentDescription list"
  rp_subpassCount :: "32 word"
  rp_pSubpasses :: "VkSubpassDescription list"
  rp_dependencyCount :: "32 word"

record VkFramebufferCreateInfo =
  fb_width :: "32 word"
  fb_height :: "32 word"
  fb_layers :: "32 word"
  fb_attachmentCount :: "32 word"
  fb_pAttachments :: "VkImageView list"
  fb_renderPass :: VkRenderPass

record VkCommandPoolCreateInfo =
  cp_queueFamilyIndex :: "32 word"

record VkCommandBufferAllocateInfo =
  commandPool :: VkCommandPool
  level :: VkCommandBufferLevel
  ca_commandBufferCount :: "32 word"

record VkCommandBufferBeginInfo =
  cb_flags :: VkFlags

record VkRenderPassBeginInfo =
  rb_renderPass :: VkRenderPass
  rb_framebuffer :: VkFramebuffer
  rb_renderArea :: VkRect2D
  rb_clearValueCount :: "32 word"

record VkClearRect =
  cr_rect :: VkRect2D
  cr_baseArrayLayer :: "32 word"
  cr_layerCount :: "32 word"

record VkClearAttachment =
  ca_aspectMask :: VkFlags
  colorAttachment :: "32 word"
  clearValue_color_float32 :: "real list"

record VkImageMemoryBarrier =
  srcAccessMask :: VkFlags
  dstAccessMask :: VkFlags
  oldLayout :: VkImageLayout
  newLayout :: VkImageLayout
  srcQueueFamilyIndex :: "32 word"
  dstQueueFamilyIndex :: "32 word"
  mb_image :: VkImage
  mb_subresourceRange :: VkImageSubresourceRange

record VkImageSubresourceLayers =
  sl_aspectMask :: VkFlags
  sl_mipLevel :: "32 word"
  sl_baseArrayLayer :: "32 word"
  sl_layerCount :: "32 word"

record VkImageCopy =
  srcSubresource :: VkImageSubresourceLayers
  srcOffset :: VkOffset3D
  dstSubresource :: VkImageSubresourceLayers
  dstOffset :: VkOffset3D
  copy_extent :: VkExtent3D

record VkFenceCreateInfo =
  fc_flags :: VkFlags

record VkSubmitInfo =
  waitSemaphoreCount :: "32 word"
  commandBufferCount :: "32 word"
  pCommandBuffers :: "VkCommandBuffer list"
  signalSemaphoreCount :: "32 word"


section \<open>Observable behaviour: driver calls, output, termination\<close>

text \<open>
  Every Vulkan function the program calls is a constructor, with the arguments the
  program passes (the \<open>device\<close>, \<open>physical_device\<close> and \<open>allocator\<close> arguments are the
  same globals at every call and are left out; so are \<open>sType\<close> and \<open>pNext\<close>). A pointer
  with a count is the list of the first \<open>count\<close> elements.
\<close>

datatype vkcall =
    vkEnumerateInstanceLayerProperties
  | vkCreateInstance VkInstanceCreateInfo
  | vkEnumeratePhysicalDevices "32 word"
  | vkGetPhysicalDeviceProperties
  | vkGetPhysicalDeviceMemoryProperties
  | vkGetPhysicalDeviceQueueFamilyProperties
  | vkCreateDevice VkDeviceCreateInfo
  | vkGetDeviceQueue "32 word" "32 word" VkQueue
  | vkCreateImage VkImageCreateInfo VkImage
  | vkGetImageMemoryRequirements VkImage
  | vkAllocateMemory VkMemoryAllocateInfo VkDeviceMemory
  | vkBindImageMemory VkImage VkDeviceMemory VkDeviceSize
  | vkCreateImageView VkImageViewCreateInfo VkImageView
  | vkCreateRenderPass VkRenderPassCreateInfo VkRenderPass
  | vkCreateFramebuffer VkFramebufferCreateInfo VkFramebuffer
  | vkCreateCommandPool VkCommandPoolCreateInfo VkCommandPool
  | vkAllocateCommandBuffers VkCommandBufferAllocateInfo VkCommandBuffer
  | vkBeginCommandBuffer VkCommandBuffer VkCommandBufferBeginInfo
  | vkCmdBeginRenderPass VkCommandBuffer VkRenderPassBeginInfo VkSubpassContents
  | vkCmdClearAttachments VkCommandBuffer "VkClearAttachment list" "VkClearRect list"
  | vkCmdEndRenderPass VkCommandBuffer
  | vkCmdPipelineBarrier VkCommandBuffer VkFlags VkFlags VkFlags
      "32 word" "32 word" "VkImageMemoryBarrier list"
  | vkCmdCopyImage VkCommandBuffer VkImage VkImageLayout VkImage VkImageLayout
      "VkImageCopy list"
  | vkEndCommandBuffer VkCommandBuffer
  | vkCreateFence VkFenceCreateInfo VkFence
  | vkQueueSubmit VkQueue "VkSubmitInfo list" VkFence
  | vkWaitForFences "VkFence list" "32 word" "64 word"
  | vkMapMemory VkDeviceMemory VkDeviceSize VkDeviceSize VkFlags

datatype arg = ArgInt int | ArgStr string | ArgSize nat

datatype event = Call vkcall | Printf string "arg list" | Puts string

text \<open>
  How a run ends: \<open>main\<close> returns, \<open>exit\<close> is called, or the C program has no defined
  behaviour (an array read past its end).
\<close>

datatype outcome = Returned int | Exited int | Undefined

text \<open>
  A statement is what it does: the events it appends to the run, and whether it stops
  the process there.
\<close>

type_synonym stmt = "event list \<times> outcome option"

definition skip :: stmt where
  "skip = ([], None)"

definition seq :: "stmt \<Rightarrow> stmt \<Rightarrow> stmt" where
  "seq a b = (case snd a of None \<Rightarrow> (fst a @ fst b, snd b) | Some h \<Rightarrow> a)"

fun block :: "stmt list \<Rightarrow> stmt" where
  "block [] = skip"
| "block (s # ss) = seq s (block ss)"

definition call :: "vkcall \<Rightarrow> stmt" where
  "call c = ([Call c], None)"

definition printf :: "string \<Rightarrow> arg list \<Rightarrow> stmt" where
  "printf fmt args = ([Printf fmt args], None)"

definition puts :: "string \<Rightarrow> stmt" where
  "puts s = ([Puts s], None)"

definition exit_process :: "int \<Rightarrow> stmt" where
  "exit_process status = ([], Some (Exited status))"

definition undefined_behaviour :: stmt where
  "undefined_behaviour = ([], Some Undefined)"

text \<open>
  \<^verbatim>\<open>void check(int condition, const char *description)\<close>: prints and exits with
  \<open>-1\<close> when the condition is zero.
\<close>

definition check :: "int \<Rightarrow> string \<Rightarrow> stmt" where
  "check condition description =
     (if condition = 0 then
        block [printf ''check condition failed: %s\<newline>'' [ArgStr description],
               exit_process (- 1)]
      else skip)"

section \<open>Memory-type selection\<close>

text \<open>
  \<^verbatim>\<open>for (*type = 0; *type < memory_properties.memoryTypeCount; ++(*type))\<close>, from the
  current value \<open>t\<close> of \<open>*type\<close>. The result is the returned \<open>int\<close> with the final value
  of \<open>*type\<close>. \<open>1 << *type\<close> shifts a 32-bit \<open>int\<close>, so a count of 32 or more has no
  defined value, and \<open>memoryTypes[*type]\<close> must stay inside the array: both are \<open>None\<close>.
  The global \<open>memory_properties\<close> is the first argument.
\<close>

function find_loop ::
  "VkPhysicalDeviceMemoryProperties \<Rightarrow> VkMemoryRequirements \<Rightarrow> VkFlags \<Rightarrow> 32 word
     \<Rightarrow> (int \<times> 32 word) option" where
  "find_loop mp reqs props t =
     (if t < memoryTypeCount mp then
        (if \<not> unat t < 32 then None
         else if (push_bit (unat t) (1 :: 32 word) AND memoryTypeBits reqs) \<noteq> 0 then
           (if \<not> unat t < length (memoryTypes mp) then None
            else if propertyFlags (memoryTypes mp ! unat t) AND props = props then Some (0, t)
            else find_loop mp reqs props (t + 1))
         else find_loop mp reqs props (t + 1))
      else Some (- 1, t))"
  by pat_completeness auto
termination
  by (relation "measure (\<lambda>(mp, reqs, props, t). unat (memoryTypeCount mp) - unat t)")
     (simp, unat_arith, unat_arith)

text \<open>
  \<open>type0\<close> is what \<open>*type\<close> holds when the function is entered; the loop's initialiser
  overwrites it.
\<close>

definition find_appropriate_memory_type ::
  "VkPhysicalDeviceMemoryProperties \<Rightarrow> VkMemoryRequirements \<Rightarrow> VkFlags \<Rightarrow> 32 word
     \<Rightarrow> (int \<times> 32 word) option" where
  "find_appropriate_memory_type mp reqs props type0 =
     (let t = (0 :: 32 word) in find_loop mp reqs props t)"

section \<open>The driver\<close>

text \<open>
  What the driver answers: the result of every fallible call (each is made at most once,
  so one answer per call site), the tables it fills in, and the 32-bit value that
  \<^verbatim>\<open>*(uint32_t *)data\<close> reads at the mapped address. \<open>uninitialised\<close> is the content
  of a local variable before its first assignment.
\<close>

record driver =
  layers :: "VkLayerProperties list"
  res_vkCreateInstance :: VkResult
  res_vkEnumeratePhysicalDevices :: VkResult
  dprops :: VkPhysicalDeviceProperties
  memory_properties :: VkPhysicalDeviceMemoryProperties
  qprops :: "VkQueueFamilyProperties list"
  res_vkCreateDevice :: VkResult
  res_vkCreateImage :: "VkImage \<Rightarrow> VkResult"
  image_memory_requirements :: "VkImage \<Rightarrow> VkMemoryRequirements"
  res_vkAllocateMemory :: "VkDeviceMemory \<Rightarrow> VkResult"
  res_vkBindImageMemory :: "VkImage \<Rightarrow> VkResult"
  res_vkCreateImageView :: "VkImageView \<Rightarrow> VkResult"
  res_vkCreateRenderPass :: VkResult
  res_vkCreateFramebuffer :: VkResult
  res_vkCreateCommandPool :: VkResult
  res_vkAllocateCommandBuffers :: VkResult
  res_vkBeginCommandBuffer :: VkResult
  res_vkEndCommandBuffer :: VkResult
  res_vkCreateFence :: VkResult
  res_vkQueueSubmit :: VkResult
  res_vkWaitForFences :: VkResult
  res_vkMapMemory :: VkResult
  mapped_pixel :: "32 word"
  uninitialised :: "32 word"

section \<open>The program\<close>

definition instance_layers :: "string list" where
  "instance_layers =
     [''VK_LAYER_LUNARG_standard_validation'',
      ''VK_LAYER_LUNARG_parameter_validation'',
      ''VK_LAYER_LUNARG_core_validation'']"

definition queue_family_index :: "32 word" where
  "queue_family_index = 0"

text \<open>\<^verbatim>\<open>(flags & BIT) ? "Y" : "N"\<close>\<close>

definition yes_no :: "VkFlags \<Rightarrow> arg" where
  "yes_no w = ArgStr (if w \<noteq> 0 then ''Y'' else ''N'')"

subsection \<open>Query the instance layers offered by the system\<close>

definition query_instance_layers :: "driver \<Rightarrow> stmt" where
  "query_instance_layers d =
     block
       ([call vkEnumerateInstanceLayerProperties,
         call vkEnumerateInstanceLayerProperties,
         puts ''Available layers:'']
        @ map (\<lambda>l. printf ''%s\<newline>'' [ArgStr (layerName l)]) (layers d)
        @ [puts []])"

subsection \<open>Create an instance of the Vulkan API\<close>

definition create_instance :: "driver \<Rightarrow> stmt" where
  "create_instance d =
     block
       [call (vkCreateInstance
          \<lparr>enabledLayerCount = of_nat (length instance_layers),
           ppEnabledLayerNames = instance_layers\<rparr>),
        check (of_bool (res_vkCreateInstance d = VK_SUCCESS)) []]"

subsection \<open>Find a GPU to render with and grab its properties\<close>

definition print_memory_type :: "VkPhysicalDeviceMemoryProperties \<Rightarrow> nat \<Rightarrow> stmt" where
  "print_memory_type mp i =
     (if \<not> i < length (memoryTypes mp) then undefined_behaviour
      else
        block
          [printf ''Memory type #%d\<newline>'' [ArgInt (int i)],
           printf ''Heap index: %d\<newline>'' [ArgInt (sint (heapIndex (memoryTypes mp ! i)))],
           printf ''DEVICE_LOCAL: %s\<newline>''
             [yes_no (propertyFlags (memoryTypes mp ! i) AND VK_MEMORY_PROPERTY_DEVICE_LOCAL_BIT)],
           printf ''HOST_VISIBLE: %s\<newline>''
             [yes_no (propertyFlags (memoryTypes mp ! i) AND VK_MEMORY_PROPERTY_HOST_VISIBLE_BIT)],
           printf ''HOST_COHERENT: %s\<newline>''
             [yes_no (propertyFlags (memoryTypes mp ! i) AND VK_MEMORY_PROPERTY_HOST_COHERENT_BIT)],
           printf ''HOST_CACHED: %s\<newline>''
             [yes_no (propertyFlags (memoryTypes mp ! i) AND VK_MEMORY_PROPERTY_HOST_CACHED_BIT)],
           printf ''LAZILY_ALLOCATED: %s\<newline>''
             [yes_no (propertyFlags (memoryTypes mp ! i)
                        AND VK_MEMORY_PROPERTY_LAZILY_ALLOCATED_BIT)],
           puts []])"

definition print_memory_heap :: "VkPhysicalDeviceMemoryProperties \<Rightarrow> nat \<Rightarrow> stmt" where
  "print_memory_heap mp i =
     (if \<not> i < length (memoryHeaps mp) then undefined_behaviour
      else
        block
          [printf ''Memory heap #%d\<newline>'' [ArgInt (int i)],
           printf ''Size: %zu\<newline>'' [ArgSize (unat (heap_size (memoryHeaps mp ! i)))],
           printf ''DEVICE_LOCAL: %s\<newline>''
             [yes_no (heap_flags (memoryHeaps mp ! i) AND VK_MEMORY_HEAP_DEVICE_LOCAL_BIT)],
           puts []])"

definition print_queue_family :: "VkQueueFamilyProperties list \<Rightarrow> nat \<Rightarrow> stmt" where
  "print_queue_family qs i =
     block
       [printf ''Queue family #%d:\<newline>'' [ArgInt (int i)],
        printf ''GRAPHICS_BIT: %s\<newline>'' [yes_no (queueFlags (qs ! i) AND VK_QUEUE_GRAPHICS_BIT)],
        printf ''COMPUTE_BIT: %s\<newline>'' [yes_no (queueFlags (qs ! i) AND VK_QUEUE_COMPUTE_BIT)],
        printf ''TRANSFER_BIT: %s\<newline>'' [yes_no (queueFlags (qs ! i) AND VK_QUEUE_TRANSFER_BIT)],
        puts []]"

text \<open>
  The guard on the queue family: \<open>qprops[queue_family_index].queueFlags & (GRAPHICS | TRANSFER)\<close>,
  converted to the \<open>int\<close> parameter of \<open>check\<close>. \<open>qprops\<close> is a variable-length array of
  as many entries as the driver reports families; reading entry 0 of none is undefined.
\<close>

definition check_queue_family :: "VkQueueFamilyProperties list \<Rightarrow> stmt" where
  "check_queue_family qs =
     (if \<not> unat queue_family_index < length qs then undefined_behaviour
      else
        check (sint (queueFlags (qs ! unat queue_family_index)
                       AND (VK_QUEUE_GRAPHICS_BIT OR VK_QUEUE_TRANSFER_BIT))) [])"

definition find_gpu :: "driver \<Rightarrow> stmt" where
  "find_gpu d =
     block
       [call (vkEnumeratePhysicalDevices 1),
        check (of_bool (res_vkEnumeratePhysicalDevices d = VK_SUCCESS)) [],
        call vkGetPhysicalDeviceProperties,
        printf ''API version: %d\<newline>'' [ArgInt (sint (apiVersion (dprops d)))],
        printf ''Driver version: %d\<newline>'' [ArgInt (sint (driverVersion (dprops d)))],
        printf ''Vendor ID: %d\<newline>'' [ArgInt (sint (vendorID (dprops d)))],
        printf ''Device ID: %d\<newline>'' [ArgInt (sint (deviceID (dprops d)))],
        printf ''Device name: %s\<newline>'' [ArgStr (deviceName (dprops d))],
        puts [],
        call vkGetPhysicalDeviceMemoryProperties,
        block (map (print_memory_type (memory_properties d))
                 [0 ..< unat (memoryTypeCount (memory_properties d))]),
        block (map (print_memory_heap (memory_properties d))
                 [0 ..< unat (memoryHeapCount (memory_properties d))]),
        call vkGetPhysicalDeviceQueueFamilyProperties,
        call vkGetPhysicalDeviceQueueFamilyProperties,
        block (map (print_queue_family (qprops d)) [0 ..< length (qprops d)]),
        check_queue_family (qprops d)]"

subsection \<open>Create a connection from the Vulkan API to the GPU\<close>

definition create_device :: "driver \<Rightarrow> stmt" where
  "create_device d =
     block
       [call (vkCreateDevice
          \<lparr>queueCreateInfoCount = 1,
           pQueueCreateInfos =
             [\<lparr>dq_queueFamilyIndex = queue_family_index,
               dq_queueCount = 1,
               dq_pQueuePriorities = [1.0]\<rparr>]\<rparr>),
        check (of_bool (res_vkCreateDevice d = VK_SUCCESS)) ''vkCreateDevice'',
        call (vkGetDeviceQueue queue_family_index 0 queue)]"

subsection \<open>Create the two images and bind memory to them\<close>

definition write_image_args :: VkImageCreateInfo where
  "write_image_args =
     \<lparr>ic_format = VK_FORMAT_R8G8B8A8_UNORM,
      ic_imageType = VK_IMAGE_TYPE_2D,
      ic_extent = \<lparr>width = 400, height = 400, depth = 1\<rparr>,
      ic_tiling = VK_IMAGE_TILING_OPTIMAL,
      ic_usage = VK_IMAGE_USAGE_COLOR_ATTACHMENT_BIT OR VK_IMAGE_USAGE_TRANSFER_SRC_BIT,
      ic_initialLayout = VK_IMAGE_LAYOUT_UNDEFINED,
      ic_mipLevels = 1,
      ic_arrayLayers = 1,
      ic_samples = VK_SAMPLE_COUNT_1_BIT,
      ic_sharingMode = VK_SHARING_MODE_EXCLUSIVE\<rparr>"

definition create_write_image :: "driver \<Rightarrow> stmt" where
  "create_write_image d =
     block
       [call (vkCreateImage write_image_args write_image),
        check (of_bool (res_vkCreateImage d write_image = VK_SUCCESS))
          ''vkCreateImage(write_image)'']"

definition image_view_args :: "VkImage \<Rightarrow> VkImageViewCreateInfo" where
  "image_view_args img =
     \<lparr>iv_image = img,
      iv_viewType = VK_IMAGE_VIEW_TYPE_2D,
      iv_format = VK_FORMAT_R8G8B8A8_UNORM,
      iv_subresourceRange =
        \<lparr>sr_aspectMask = VK_IMAGE_ASPECT_COLOR_BIT,
         sr_baseMipLevel = 0,
         sr_levelCount = VK_REMAINING_MIP_LEVELS,
         sr_baseArrayLayer = 0,
         sr_layerCount = 1\<rparr>\<rparr>"

text \<open>
  \<^verbatim>\<open>res = find_appropriate_memory_type(reqs, desired_flags, &memory_type);\<close> and the
  statements around it, in the block that creates and binds memory to \<open>write_image\<close>.
\<close>

definition bind_write_image_memory :: "driver \<Rightarrow> stmt" where
  "bind_write_image_memory d =
     (let reqs = image_memory_requirements d write_image;
          desired_flags = VK_MEMORY_PROPERTY_DEVICE_LOCAL_BIT
      in case find_appropriate_memory_type (memory_properties d) reqs desired_flags
                (uninitialised d) of
           None \<Rightarrow> block [call (vkGetImageMemoryRequirements write_image), undefined_behaviour]
         | Some (res, memory_type) \<Rightarrow>
             block
               [call (vkGetImageMemoryRequirements write_image),
                check (of_bool (res = 0)) ''find_appropriate_memory_type for write_image'',
                printf ''Chosen memory type for write_image: %d\<newline>''
                  [ArgInt (sint memory_type)],
                puts [],
                call (vkAllocateMemory
                  \<lparr>allocationSize = req_size reqs, memoryTypeIndex = memory_type\<rparr>
                  write_image_memory),
                check (of_bool (res_vkAllocateMemory d write_image_memory = VK_SUCCESS))
                  ''vkAllocateMemory(write_image)'',
                call (vkBindImageMemory write_image write_image_memory 0),
                check (of_bool (res_vkBindImageMemory d write_image = VK_SUCCESS))
                  ''vkBindImageMemory(write_image)'',
                call (vkCreateImageView (image_view_args write_image) write_image_view),
                check (of_bool (res_vkCreateImageView d write_image_view = VK_SUCCESS))
                  ''vkCreateImageView(write_image)''])"

definition read_image_args :: VkImageCreateInfo where
  "read_image_args =
     \<lparr>ic_format = VK_FORMAT_R8G8B8A8_UNORM,
      ic_imageType = VK_IMAGE_TYPE_2D,
      ic_extent = \<lparr>width = 400, height = 400, depth = 1\<rparr>,
      ic_tiling = VK_IMAGE_TILING_LINEAR,
      ic_usage = VK_IMAGE_USAGE_TRANSFER_DST_BIT OR VK_IMAGE_USAGE_SAMPLED_BIT,
      ic_initialLayout = VK_IMAGE_LAYOUT_UNDEFINED,
      ic_mipLevels = 1,
      ic_arrayLayers = 1,
      ic_samples = VK_SAMPLE_COUNT_1_BIT,
      ic_sharingMode = VK_SHARING_MODE_EXCLUSIVE\<rparr>"

definition create_read_image :: "driver \<Rightarrow> stmt" where
  "create_read_image d =
     block
       [call (vkCreateImage read_image_args read_image),
        check (of_bool (res_vkCreateImage d read_image = VK_SUCCESS))
          ''vkCreateImage(read_image)'']"

definition bind_read_image_memory :: "driver \<Rightarrow> stmt" where
  "bind_read_image_memory d =
     (let reqs = image_memory_requirements d read_image;
          desired_flags = VK_MEMORY_PROPERTY_HOST_VISIBLE_BIT
      in case find_appropriate_memory_type (memory_properties d) reqs desired_flags
                (uninitialised d) of
           None \<Rightarrow> block [call (vkGetImageMemoryRequirements read_image), undefined_behaviour]
         | Some (res, memory_type) \<Rightarrow>
             block
               [call (vkGetImageMemoryRequirements read_image),
                check (of_bool (res = 0)) ''find_appropriate_memory_type for read_image'',
                printf ''Chosen memory type for write_image: %d\<newline>''
                  [ArgInt (sint memory_type)],
                puts [],
                call (vkAllocateMemory
                  \<lparr>allocationSize = req_size reqs, memoryTypeIndex = memory_type\<rparr>
                  read_image_memory),
                check (of_bool (res_vkAllocateMemory d read_image_memory = VK_SUCCESS))
                  ''vkAllocateMemory(read_image)'',
                call (vkBindImageMemory read_image read_image_memory 0),
                check (of_bool (res_vkBindImageMemory d read_image = VK_SUCCESS))
                  ''vkBindImageMemory(read_image)'',
                call (vkCreateImageView (image_view_args read_image) read_image_view),
                check (of_bool (res_vkCreateImageView d read_image_view = VK_SUCCESS))
                  ''vkCreateImageView(read_image)''])"

subsection \<open>Create the graphics pipeline and the framebuffer\<close>

definition color_attachment :: VkAttachmentDescription where
  "color_attachment =
     \<lparr>ad_format = VK_FORMAT_R8G8B8A8_UNORM,
      ad_samples = 1,
      ad_loadOp = VK_ATTACHMENT_LOAD_OP_DONT_CARE,
      ad_storeOp = VK_ATTACHMENT_STORE_OP_STORE,
      ad_initialLayout = VK_IMAGE_LAYOUT_UNDEFINED,
      ad_finalLayout = VK_IMAGE_LAYOUT_COLOR_ATTACHMENT_OPTIMAL\<rparr>"

definition color_attachment_reference :: VkAttachmentReference where
  "color_attachment_reference =
     \<lparr>ar_attachment = 0, ar_layout = VK_IMAGE_LAYOUT_COLOR_ATTACHMENT_OPTIMAL\<rparr>"

definition subpass_description :: VkSubpassDescription where
  "subpass_description =
     \<lparr>pipelineBindPoint = VK_PIPELINE_BIND_POINT_GRAPHICS,
      colorAttachmentCount = 1,
      pColorAttachments = [color_attachment_reference]\<rparr>"

definition render_pass_args :: VkRenderPassCreateInfo where
  "render_pass_args =
     \<lparr>rp_attachmentCount = 1,
      rp_pAttachments = [color_attachment],
      rp_subpassCount = 1,
      rp_pSubpasses = [subpass_description],
      rp_dependencyCount = 0\<rparr>"

definition create_render_pass :: "driver \<Rightarrow> stmt" where
  "create_render_pass d =
     block
       [call (vkCreateRenderPass render_pass_args render_pass),
        check (of_bool (res_vkCreateRenderPass d = VK_SUCCESS)) ''vkCreateRenderPass'']"

definition framebuffer_args :: VkFramebufferCreateInfo where
  "framebuffer_args =
     \<lparr>fb_width = 400,
      fb_height = 400,
      fb_layers = 1,
      fb_attachmentCount = 1,
      fb_pAttachments = [write_image_view],
      fb_renderPass = render_pass\<rparr>"

definition create_framebuffer :: "driver \<Rightarrow> stmt" where
  "create_framebuffer d =
     block
       [call (vkCreateFramebuffer framebuffer_args framebuffer),
        check (of_bool (res_vkCreateFramebuffer d = VK_SUCCESS)) ''vkFramebufferCreateInfo'']"

subsection \<open>Create a command pool and a command buffer\<close>

definition create_command_pool :: "driver \<Rightarrow> stmt" where
  "create_command_pool d =
     block
       [call (vkCreateCommandPool \<lparr>cp_queueFamilyIndex = queue_family_index\<rparr> command_pool),
        check (of_bool (res_vkCreateCommandPool d = VK_SUCCESS)) ''vkCommandPoolCreateInfo'']"

definition create_command_buffer :: "driver \<Rightarrow> stmt" where
  "create_command_buffer d =
     block
       [call (vkAllocateCommandBuffers
          \<lparr>commandPool = command_pool,
           level = VK_COMMAND_BUFFER_LEVEL_PRIMARY,
           ca_commandBufferCount = 1\<rparr>
          command_buffer),
        check (of_bool (res_vkAllocateCommandBuffers d = VK_SUCCESS))
          ''vkAllocateCommandBuffers'']"

subsection \<open>Record the commands\<close>

definition commence_recording :: "driver \<Rightarrow> stmt" where
  "commence_recording d =
     block
       [call (vkBeginCommandBuffer command_buffer
          \<lparr>cb_flags = VK_COMMAND_BUFFER_USAGE_ONE_TIME_SUBMIT_BIT\<rparr>),
        check (of_bool (res_vkBeginCommandBuffer d = VK_SUCCESS)) ''vkBeginCommandBuffer'']"

definition render_pass_begin_args :: VkRenderPassBeginInfo where
  "render_pass_begin_args =
     \<lparr>rb_renderPass = render_pass,
      rb_framebuffer = framebuffer,
      rb_renderArea =
        \<lparr>rect_offset = \<lparr>offset_x = 0, offset_y = 0\<rparr>,
         rect_extent = \<lparr>width = 400, height = 400\<rparr>\<rparr>,
      rb_clearValueCount = 0\<rparr>"

definition begin_render_pass :: stmt where
  "begin_render_pass =
     block
       [call (vkCmdBeginRenderPass command_buffer render_pass_begin_args
                VK_SUBPASS_CONTENTS_INLINE)]"

definition clear_rect :: VkClearRect where
  "clear_rect =
     \<lparr>cr_rect =
        \<lparr>rect_offset = \<lparr>offset_x = 0, offset_y = 0\<rparr>,
         rect_extent = \<lparr>width = 400, height = 400\<rparr>\<rparr>,
      cr_baseArrayLayer = 0,
      cr_layerCount = 1\<rparr>"

definition clear_attachment_args :: VkClearAttachment where
  "clear_attachment_args =
     \<lparr>ca_aspectMask = VK_IMAGE_ASPECT_COLOR_BIT,
      colorAttachment = 0,
      clearValue_color_float32 = [1.0, 1.0, 0.0, 1.0]\<rparr>"

definition clear_color_attachment :: stmt where
  "clear_color_attachment =
     block
       [call (vkCmdClearAttachments command_buffer
                (take 1 [clear_attachment_args]) (take 1 [clear_rect])),
        call (vkCmdEndRenderPass command_buffer)]"

definition whole_color_image :: VkImageSubresourceRange where
  "whole_color_image =
     \<lparr>sr_aspectMask = VK_IMAGE_ASPECT_COLOR_BIT,
      sr_baseMipLevel = 0,
      sr_levelCount = VK_REMAINING_MIP_LEVELS,
      sr_baseArrayLayer = 0,
      sr_layerCount = VK_REMAINING_ARRAY_LAYERS\<rparr>"

text \<open>The first pipeline barrier: \<open>image_memory_barriers\<close> with \<open>image_memory_barrier_count = 2\<close>.\<close>

definition transition_barriers :: "VkImageMemoryBarrier list" where
  "transition_barriers =
     [\<lparr>srcAccessMask = 0,
       dstAccessMask = VK_ACCESS_TRANSFER_WRITE_BIT,
       oldLayout = VK_IMAGE_LAYOUT_UNDEFINED,
       newLayout = VK_IMAGE_LAYOUT_TRANSFER_DST_OPTIMAL,
       srcQueueFamilyIndex = queue_family_index,
       dstQueueFamilyIndex = queue_family_index,
       mb_image = read_image,
       mb_subresourceRange = whole_color_image\<rparr>,
      \<lparr>srcAccessMask = VK_ACCESS_COLOR_ATTACHMENT_WRITE_BIT,
       dstAccessMask = VK_ACCESS_TRANSFER_READ_BIT,
       oldLayout = VK_IMAGE_LAYOUT_COLOR_ATTACHMENT_OPTIMAL,
       newLayout = VK_IMAGE_LAYOUT_TRANSFER_SRC_OPTIMAL,
       srcQueueFamilyIndex = queue_family_index,
       dstQueueFamilyIndex = queue_family_index,
       mb_image = write_image,
       mb_subresourceRange = whole_color_image\<rparr>]"

definition transition_image_layouts :: stmt where
  "transition_image_layouts =
     block
       [call (vkCmdPipelineBarrier command_buffer
                VK_PIPELINE_STAGE_COLOR_ATTACHMENT_OUTPUT_BIT
                VK_PIPELINE_STAGE_TRANSFER_BIT
                0 0 0
                (take 2 transition_barriers))]"

definition color_layer :: VkImageSubresourceLayers where
  "color_layer =
     \<lparr>sl_aspectMask = VK_IMAGE_ASPECT_COLOR_BIT,
      sl_mipLevel = 0,
      sl_baseArrayLayer = 0,
      sl_layerCount = 1\<rparr>"

definition region :: VkImageCopy where
  "region =
     \<lparr>srcSubresource = color_layer,
      srcOffset = \<lparr>offset_x = 0, offset_y = 0, offset_z = 0\<rparr>,
      dstSubresource = color_layer,
      dstOffset = \<lparr>offset_x = 0, offset_y = 0, offset_z = 0\<rparr>,
      copy_extent = \<lparr>width = 400, height = 400, depth = 1\<rparr>\<rparr>"

definition copy_to_read_image :: stmt where
  "copy_to_read_image =
     block
       [call (vkCmdCopyImage command_buffer
                write_image VK_IMAGE_LAYOUT_TRANSFER_SRC_OPTIMAL
                read_image VK_IMAGE_LAYOUT_TRANSFER_DST_OPTIMAL
                (take 1 [region]))]"

text \<open>The second pipeline barrier: \<open>image_memory_barrier_count = 1\<close>.\<close>

definition read_barriers :: "VkImageMemoryBarrier list" where
  "read_barriers =
     [\<lparr>srcAccessMask = VK_ACCESS_TRANSFER_WRITE_BIT,
       dstAccessMask = VK_ACCESS_HOST_READ_BIT,
       oldLayout = VK_IMAGE_LAYOUT_TRANSFER_DST_OPTIMAL,
       newLayout = VK_IMAGE_LAYOUT_GENERAL,
       srcQueueFamilyIndex = queue_family_index,
       dstQueueFamilyIndex = queue_family_index,
       mb_image = read_image,
       mb_subresourceRange = whole_color_image\<rparr>]"

definition transition_for_reading :: stmt where
  "transition_for_reading =
     block
       [call (vkCmdPipelineBarrier command_buffer
                VK_PIPELINE_STAGE_TRANSFER_BIT
                VK_PIPELINE_STAGE_HOST_BIT
                0 0 0
                (take 1 read_barriers))]"

definition stop_recording :: "driver \<Rightarrow> stmt" where
  "stop_recording d =
     block
       [call (vkEndCommandBuffer command_buffer),
        check (of_bool (res_vkEndCommandBuffer d = VK_SUCCESS)) ''vkEndCommandBuffer'']"

subsection \<open>Submit and wait\<close>

definition create_fence :: "driver \<Rightarrow> stmt" where
  "create_fence d =
     block
       [call (vkCreateFence \<lparr>fc_flags = 0\<rparr> fence),
        check (of_bool (res_vkCreateFence d = VK_SUCCESS)) ''vkCreateFence'']"

definition submit_args :: VkSubmitInfo where
  "submit_args =
     \<lparr>waitSemaphoreCount = 0,
      commandBufferCount = 1,
      pCommandBuffers = [command_buffer],
      signalSemaphoreCount = 0\<rparr>"

definition submit_command_buffer :: "driver \<Rightarrow> stmt" where
  "submit_command_buffer d =
     block
       [call (vkQueueSubmit queue (take 1 [submit_args]) fence),
        check (of_bool (res_vkQueueSubmit d = VK_SUCCESS)) ''vkQueueSubmit'']"

definition wait_for_gpu :: "driver \<Rightarrow> stmt" where
  "wait_for_gpu d =
     block
       [call (vkWaitForFences (take 1 [fence]) VK_TRUE UINT64_MAX),
        check (of_bool (res_vkWaitForFences d = VK_SUCCESS)) ''vkWaitForFence'']"

subsection \<open>Read back the results\<close>

text \<open>
  \<^verbatim>\<open>uint8_t red = pixel & 0xff;\<close> and the three shifts: each channel is a byte of the
  32-bit value read at the mapped address.
\<close>

definition red :: "32 word \<Rightarrow> 8 word" where
  "red pixel = ucast (pixel AND 0xff)"

definition green :: "32 word \<Rightarrow> 8 word" where
  "green pixel = ucast (drop_bit 8 pixel AND 0xff)"

definition blue :: "32 word \<Rightarrow> 8 word" where
  "blue pixel = ucast (drop_bit 16 pixel AND 0xff)"

definition alpha :: "32 word \<Rightarrow> 8 word" where
  "alpha pixel = ucast (drop_bit 24 pixel AND 0xff)"

text \<open>The \<open>printf\<close> of the four channels and the four checks on them.\<close>

definition validate :: "32 word \<Rightarrow> stmt" where
  "validate pixel =
     block
       [printf ''r = %#x, g = %#x, b = %#x, a = %#x\<newline>''
          [ArgInt (uint (red pixel)), ArgInt (uint (green pixel)),
           ArgInt (uint (blue pixel)), ArgInt (uint (alpha pixel))],
        check (of_bool (uint (red pixel) = 0xff)) ''red == 0xff'',
        check (of_bool (uint (green pixel) = 0xff)) ''green == 0xff'',
        check (of_bool (uint (blue pixel) = 0)) ''blue == 0'',
        check (of_bool (uint (alpha pixel) = 0xff)) ''alpha == 0xff'']"

definition read_back :: "driver \<Rightarrow> stmt" where
  "read_back d =
     block
       [call (vkMapMemory read_image_memory 0 VK_WHOLE_SIZE 0),
        check (of_bool (res_vkMapMemory d = VK_SUCCESS)) ''vkMapMemory'',
        validate (mapped_pixel d)]"

subsection \<open>\<open>main\<close>\<close>

text \<open>The blocks of \<open>main\<close>, in the order of the source.\<close>

definition program :: "driver \<Rightarrow> stmt list" where
  "program d =
     [query_instance_layers d,
      create_instance d,
      find_gpu d,
      create_device d,
      create_write_image d,
      bind_write_image_memory d,
      create_read_image d,
      bind_read_image_memory d,
      create_render_pass d,
      create_framebuffer d,
      create_command_pool d,
      create_command_buffer d,
      commence_recording d,
      begin_render_pass,
      clear_color_attachment,
      transition_image_layouts,
      copy_to_read_image,
      transition_for_reading,
      stop_recording d,
      create_fence d,
      submit_command_buffer d,
      wait_for_gpu d,
      read_back d]"

text \<open>The run of the process: its events, and \<open>return 0\<close> when no statement stopped it.\<close>

definition main :: "driver \<Rightarrow> event list \<times> outcome" where
  "main d =
     (case block (program d) of
        (es, None) \<Rightarrow> (es, Returned 0)
      | (es, Some h) \<Rightarrow> (es, h))"

section \<open>What the specification says, in terms of the program\<close>

subsection \<open>Memory-type selection\<close>

text \<open>
  The property flags of a memory type are a superset of the required flags: every bit
  set in \<open>props\<close> is set in \<open>flags\<close>.
\<close>

definition has_all_flags :: "VkFlags \<Rightarrow> VkFlags \<Rightarrow> bool" where
  "has_all_flags flags props \<longleftrightarrow> (\<forall>n. bit props n \<longrightarrow> bit flags n)"

text \<open>
  Index \<open>i\<close> is a memory type of the table, its bit is set in the bitmask of the
  requirements, and its property flags are a superset of the required flags.
\<close>

definition suitable ::
  "VkPhysicalDeviceMemoryProperties \<Rightarrow> VkMemoryRequirements \<Rightarrow> VkFlags \<Rightarrow> nat \<Rightarrow> bool" where
  "suitable mp reqs props i \<longleftrightarrow>
     i < unat (memoryTypeCount mp) \<and> bit (memoryTypeBits reqs) i \<and>
     has_all_flags (propertyFlags (memoryTypes mp ! i)) props"

text \<open>
  A table as the driver fills it in: the two arrays have their declared sizes and the
  counts stay within them.
\<close>

definition wf_memory_properties :: "VkPhysicalDeviceMemoryProperties \<Rightarrow> bool" where
  "wf_memory_properties mp \<longleftrightarrow>
     length (memoryTypes mp) = VK_MAX_MEMORY_TYPES \<and>
     unat (memoryTypeCount mp) \<le> VK_MAX_MEMORY_TYPES \<and>
     length (memoryHeaps mp) = VK_MAX_MEMORY_HEAPS \<and>
     unat (memoryHeapCount mp) \<le> VK_MAX_MEMORY_HEAPS"

text \<open>A driver with a well-formed memory table and at least one queue family.\<close>

definition wf_driver :: "driver \<Rightarrow> bool" where
  "wf_driver d \<longleftrightarrow> wf_memory_properties (memory_properties d) \<and> qprops d \<noteq> []"

text \<open>The selection \<open>main\<close> makes for an image, with the flags it asks for.\<close>

definition selected :: "driver \<Rightarrow> VkImage \<Rightarrow> VkFlags \<Rightarrow> (int \<times> 32 word) option" where
  "selected d img flags =
     find_appropriate_memory_type (memory_properties d) (image_memory_requirements d img) flags
       (uninitialised d)"

subsection \<open>The pixel\<close>

text \<open>
  The 32-bit value a little-endian host reads from the four bytes \<open>b0, b1, b2, b3\<close> at
  increasing addresses.
\<close>

definition little_endian_u32 :: "8 word \<Rightarrow> 8 word \<Rightarrow> 8 word \<Rightarrow> 8 word \<Rightarrow> 32 word" where
  "little_endian_u32 b0 b1 b2 b3 =
     ucast b0 OR push_bit 8 (ucast b1) OR push_bit 16 (ucast b2) OR push_bit 24 (ucast b3)"

subsection \<open>Runs\<close>

text \<open>The driver calls of a run, in order, without the output.\<close>

fun calls :: "event list \<Rightarrow> vkcall list" where
  "calls [] = []"
| "calls (Call c # es) = c # calls es"
| "calls (e # es) = calls es"

text \<open>What \<open>check\<close> prints when its condition fails.\<close>

definition failure_report :: "string \<Rightarrow> event" where
  "failure_report description =
     Printf ''check condition failed: %s\<newline>'' [ArgStr description]"

text \<open>
  A statement stops the process with status \<open>-1\<close>, and the last thing it did was to
  print the failure report of \<open>description\<close>.
\<close>

definition exits_reporting :: "stmt \<Rightarrow> string \<Rightarrow> bool" where
  "exits_reporting s description \<longleftrightarrow>
     snd s = Some (Exited (- 1)) \<and> fst s \<noteq> [] \<and> last (fst s) = failure_report description"

text \<open>A statement that stops the process by \<open>exit\<close> does so as \<open>check\<close> does.\<close>

definition exits_only_by_check :: "stmt \<Rightarrow> bool" where
  "exits_only_by_check s \<longleftrightarrow>
     (case snd s of
        Some (Exited c) \<Rightarrow> c = - 1 \<and> fst s \<noteq> [] \<and> last (fst s) \<in> range failure_report
      | Some (Returned c) \<Rightarrow> False
      | _ \<Rightarrow> True)"

text \<open>A list that is there only under a condition.\<close>

definition guard :: "bool \<Rightarrow> 'a list \<Rightarrow> 'a list" where
  "guard c xs = (if c then xs else [])"

subsection \<open>The command buffer\<close>

fun is_begin_recording :: "vkcall \<Rightarrow> bool" where
  "is_begin_recording (vkBeginCommandBuffer _ _) = True"
| "is_begin_recording _ = False"

fun is_end_recording :: "vkcall \<Rightarrow> bool" where
  "is_end_recording (vkEndCommandBuffer _) = True"
| "is_end_recording _ = False"

fun is_command :: "vkcall \<Rightarrow> bool" where
  "is_command (vkCmdBeginRenderPass _ _ _) = True"
| "is_command (vkCmdClearAttachments _ _ _) = True"
| "is_command (vkCmdEndRenderPass _) = True"
| "is_command (vkCmdPipelineBarrier _ _ _ _ _ _ _) = True"
| "is_command (vkCmdCopyImage _ _ _ _ _ _) = True"
| "is_command _ = False"

fun is_barrier_or_copy :: "vkcall \<Rightarrow> bool" where
  "is_barrier_or_copy (vkCmdPipelineBarrier _ _ _ _ _ _ _) = True"
| "is_barrier_or_copy (vkCmdCopyImage _ _ _ _ _ _) = True"
| "is_barrier_or_copy _ = False"

fun is_copy :: "vkcall \<Rightarrow> bool" where
  "is_copy (vkCmdCopyImage _ _ _ _ _ _) = True"
| "is_copy _ = False"

fun is_submit :: "vkcall \<Rightarrow> bool" where
  "is_submit (vkQueueSubmit _ _ _) = True"
| "is_submit _ = False"

fun is_wait :: "vkcall \<Rightarrow> bool" where
  "is_wait (vkWaitForFences _ _ _) = True"
| "is_wait _ = False"

fun is_create_fence :: "vkcall \<Rightarrow> bool" where
  "is_create_fence (vkCreateFence _ _) = True"
| "is_create_fence _ = False"

fun is_fence_call :: "vkcall \<Rightarrow> bool" where
  "is_fence_call (vkCreateFence _ _) = True"
| "is_fence_call (vkQueueSubmit _ _ _) = True"
| "is_fence_call (vkWaitForFences _ _ _) = True"
| "is_fence_call _ = False"

text \<open>The calls made after the first begin-recording and before the next end-recording.\<close>

definition recorded :: "vkcall list \<Rightarrow> vkcall list" where
  "recorded cs =
     takeWhile (\<lambda>c. \<not> is_end_recording c) (tl (dropWhile (\<lambda>c. \<not> is_begin_recording c) cs))"

text \<open>The memory allocation and the memory binding made for an image.\<close>

fun memory_of :: "VkImage \<Rightarrow> VkDeviceMemory" where
  "memory_of write_image = write_image_memory"
| "memory_of read_image = read_image_memory"

fun allocates_or_binds :: "VkImage \<Rightarrow> vkcall \<Rightarrow> bool" where
  "allocates_or_binds img (vkAllocateMemory _ m) = (m = memory_of img)"
| "allocates_or_binds img (vkBindImageMemory i m _) = (i = img \<or> m = memory_of img)"
| "allocates_or_binds img _ = False"

subsection \<open>The tracked layout of an image\<close>

text \<open>
  The layout tracker of the specification: every image starts in the initial layout of
  its creation; the end of the render pass leaves every attachment of the framebuffer in
  the final layout of its attachment description; a barrier must name the tracked layout
  as its old layout and establishes its new layout; a copy must name the tracked layouts
  of its source and destination. \<open>None\<close> is a violation.
\<close>

type_synonym layouts = "VkImage \<Rightarrow> VkImageLayout"

fun initial_layouts :: layouts where
  "initial_layouts write_image = ic_initialLayout write_image_args"
| "initial_layouts read_image = ic_initialLayout read_image_args"

fun view_image :: "VkImageView \<Rightarrow> VkImage" where
  "view_image write_image_view = iv_image (image_view_args write_image)"
| "view_image read_image_view = iv_image (image_view_args read_image)"

definition end_render_pass_layouts :: "layouts \<Rightarrow> layouts" where
  "end_render_pass_layouts L =
     foldl (\<lambda>L' (v, a). L'(view_image v := ad_finalLayout a)) L
       (zip (fb_pAttachments framebuffer_args) (rp_pAttachments render_pass_args))"

fun apply_barriers :: "layouts \<Rightarrow> VkImageMemoryBarrier list \<Rightarrow> layouts option" where
  "apply_barriers L [] = Some L"
| "apply_barriers L (b # bs) =
     (if oldLayout b = L (mb_image b) then apply_barriers (L(mb_image b := newLayout b)) bs
      else None)"

fun track :: "layouts \<Rightarrow> vkcall \<Rightarrow> layouts option" where
  "track L (vkCmdEndRenderPass _) = Some (end_render_pass_layouts L)"
| "track L (vkCmdPipelineBarrier _ _ _ _ _ _ bs) = apply_barriers L bs"
| "track L (vkCmdCopyImage _ src srcLayout dst dstLayout _) =
     (if L src = srcLayout \<and> L dst = dstLayout then Some L else None)"
| "track L _ = Some L"

fun track_all :: "layouts \<Rightarrow> vkcall list \<Rightarrow> layouts option" where
  "track_all L [] = Some L"
| "track_all L (c # cs) = (case track L c of None \<Rightarrow> None | Some L' \<Rightarrow> track_all L' cs)"

subsection \<open>Example drivers\<close>

definition example_memory_properties :: VkPhysicalDeviceMemoryProperties where
  "example_memory_properties =
     \<lparr>memoryTypeCount = 3,
      memoryTypes =
        [\<lparr>propertyFlags = VK_MEMORY_PROPERTY_HOST_VISIBLE_BIT OR VK_MEMORY_PROPERTY_HOST_COHERENT_BIT,
          heapIndex = 1\<rparr>,
         \<lparr>propertyFlags = VK_MEMORY_PROPERTY_DEVICE_LOCAL_BIT, heapIndex = 0\<rparr>,
         \<lparr>propertyFlags = VK_MEMORY_PROPERTY_DEVICE_LOCAL_BIT OR VK_MEMORY_PROPERTY_HOST_VISIBLE_BIT,
          heapIndex = 0\<rparr>]
        @ replicate 29 \<lparr>propertyFlags = 0, heapIndex = 0\<rparr>,
      memoryHeapCount = 2,
      memoryHeaps =
        [\<lparr>heap_size = 0x100000000, heap_flags = VK_MEMORY_HEAP_DEVICE_LOCAL_BIT\<rparr>,
         \<lparr>heap_size = 0x80000000, heap_flags = 0\<rparr>]
        @ replicate 14 \<lparr>heap_size = 0, heap_flags = 0\<rparr>\<rparr>"

definition example_requirements :: VkMemoryRequirements where
  "example_requirements = \<lparr>req_size = 640000, req_alignment = 256, memoryTypeBits = 0x6\<rparr>"

text \<open>
  A driver whose every call succeeds, whose only queue family supports transfer and
  nothing else, and whose readback memory holds opaque yellow.
\<close>

definition example_driver :: driver where
  "example_driver =
     \<lparr>layers = [\<lparr>layerName = ''VK_LAYER_LUNARG_core_validation''\<rparr>],
      res_vkCreateInstance = VK_SUCCESS,
      res_vkEnumeratePhysicalDevices = VK_SUCCESS,
      dprops = \<lparr>apiVersion = 0x400000, driverVersion = 1, vendorID = 0x10DE,
                deviceID = 1, deviceName = ''GPU''\<rparr>,
      memory_properties = example_memory_properties,
      qprops = [\<lparr>queueFlags = VK_QUEUE_TRANSFER_BIT\<rparr>],
      res_vkCreateDevice = VK_SUCCESS,
      res_vkCreateImage = (\<lambda>_. VK_SUCCESS),
      image_memory_requirements = (\<lambda>_. example_requirements),
      res_vkAllocateMemory = (\<lambda>_. VK_SUCCESS),
      res_vkBindImageMemory = (\<lambda>_. VK_SUCCESS),
      res_vkCreateImageView = (\<lambda>_. VK_SUCCESS),
      res_vkCreateRenderPass = VK_SUCCESS,
      res_vkCreateFramebuffer = VK_SUCCESS,
      res_vkCreateCommandPool = VK_SUCCESS,
      res_vkAllocateCommandBuffers = VK_SUCCESS,
      res_vkBeginCommandBuffer = VK_SUCCESS,
      res_vkEndCommandBuffer = VK_SUCCESS,
      res_vkCreateFence = VK_SUCCESS,
      res_vkQueueSubmit = VK_SUCCESS,
      res_vkWaitForFences = VK_SUCCESS,
      res_vkMapMemory = VK_SUCCESS,
      mapped_pixel = 0xFF00FFFF,
      uninitialised = 0xCCCCCCCC\<rparr>"

section \<open>Memory-type selection: proofs\<close>

text \<open>The loop is unfolded one step at a time, by the two lemmas below.\<close>

declare find_loop.simps [simp del]

lemma has_all_flags_iff: "has_all_flags flags props \<longleftrightarrow> flags AND props = props"
proof
  assume "has_all_flags flags props"
  then show "flags AND props = props"
    by (auto simp: has_all_flags_def intro!: bit_word_eqI simp: bit_simps)
next
  assume h: "flags AND props = props"
  show "has_all_flags flags props"
    unfolding has_all_flags_def
  proof (intro allI impI)
    fix n assume "bit props n"
    then have "bit (flags AND props) n" using h by simp
    then show "bit flags n" by (simp add: bit_simps)
  qed
qed

lemma bit_test_iff: "push_bit n (1::32 word) AND w \<noteq> 0 \<longleftrightarrow> n < 32 \<and> bit w n"
proof -
  have eq: "push_bit n (1::32 word) AND w = (if n < 32 \<and> bit w n then push_bit n 1 else 0)"
    by (rule bit_word_eqI) (auto simp: bit_simps)
  have "push_bit n (1::32 word) \<noteq> 0" if "n < 32"
    using that by (simp add: push_bit_eq_mult exp_eq_zero_iff)
  with eq show ?thesis by auto
qed

lemma unat_inc: "t < (c::32 word) \<Longrightarrow> unat (t + 1) = Suc (unat t)"
  by unat_arith

lemma find_loop_exit:
  "\<not> t < memoryTypeCount mp \<Longrightarrow> find_loop mp reqs props t = Some (- 1, t)"
  by (subst find_loop.simps) simp

lemma find_loop_unfold:
  assumes "t < memoryTypeCount mp"
  shows "find_loop mp reqs props t =
     (if \<not> unat t < 32 then None
      else if bit (memoryTypeBits reqs) (unat t) then
        (if \<not> unat t < length (memoryTypes mp) then None
         else if has_all_flags (propertyFlags (memoryTypes mp ! unat t)) props then Some (0, t)
         else find_loop mp reqs props (t + 1))
      else find_loop mp reqs props (t + 1))"
proof (cases "unat t < 32")
  case False
  with assms show ?thesis by (subst find_loop.simps) (simp only: if_True if_False simp_thms)
next
  case True
  then have bt: "(push_bit (unat t) (1::32 word) AND memoryTypeBits reqs \<noteq> 0)
      = bit (memoryTypeBits reqs) (unat t)"
    by (simp only: bit_test_iff simp_thms)
  show ?thesis
    by (subst find_loop.simps) (simp only: assms True bt has_all_flags_iff if_True if_False simp_thms)
qed

lemma find_loop_step:
  assumes "t < memoryTypeCount mp" "unat t < 32" "unat t < length (memoryTypes mp)"
  shows "find_loop mp reqs props t =
           (if suitable mp reqs props (unat t) then Some (0, t)
            else find_loop mp reqs props (t + 1))"
proof -
  from assms(1) have "unat t < unat (memoryTypeCount mp)" by (simp add: word_less_nat_alt)
  with assms show ?thesis
    by (simp add: find_loop_unfold suitable_def)
qed

lemma find_loop_continue:
  assumes "t < memoryTypeCount mp" "find_loop mp reqs props t = Some (r, u)" "r \<noteq> 0"
  shows "find_loop mp reqs props (t + 1) = Some (r, u) \<and> \<not> suitable mp reqs props (unat t)"
  using assms(2,3) unfolding find_loop_unfold[OF assms(1)] suitable_def
  by (auto split: if_splits)


lemma measure_dec:
  assumes "t < (c :: 32 word)"
  shows "unat c - unat (t + 1) < unat c - unat t" "unat (t + 1) = Suc (unat t)"
proof -
  show inc: "unat (t + 1) = Suc (unat t)" using assms by (rule unat_inc)
  from assms have "unat t < unat c" by (simp add: word_less_nat_alt)
  with inc show "unat c - unat (t + 1) < unat c - unat t" by simp
qed

lemma find_loop_not_found:
  assumes "find_loop mp reqs props t = Some (r, u)" "r \<noteq> 0"
  shows "r = - 1 \<and> u = (if t < memoryTypeCount mp then memoryTypeCount mp else t) \<and>
     (\<forall>j. unat t \<le> j \<longrightarrow> \<not> suitable mp reqs props j)"
  using assms
proof (induction "unat (memoryTypeCount mp) - unat t" arbitrary: t rule: less_induct)
  case less
  show ?case
  proof (cases "t < memoryTypeCount mp")
    case False
    then have "\<And>j. unat t \<le> j \<Longrightarrow> \<not> j < unat (memoryTypeCount mp)"
      by (simp add: word_less_nat_alt)
    with False less.prems show ?thesis by (auto simp: find_loop_exit suitable_def)
  next
    case lt: True
    note dec = measure_dec[OF lt]
    from find_loop_continue[OF lt less.prems]
    have nxt: "find_loop mp reqs props (t + 1) = Some (r, u)"
      and ns: "\<not> suitable mp reqs props (unat t)" by simp_all
    from less.hyps[OF dec(1) nxt less.prems(2)]
    have IH: "r = - 1" "u = (if t + 1 < memoryTypeCount mp then memoryTypeCount mp else t + 1)"
      "\<forall>j. unat (t + 1) \<le> j \<longrightarrow> \<not> suitable mp reqs props j" by simp_all
    have u: "u = memoryTypeCount mp"
    proof (cases "t + 1 < memoryTypeCount mp")
      case True with IH show ?thesis by simp
    next
      case False
      have "unat (t + 1) \<le> unat (memoryTypeCount mp)"
        using lt dec(2) by (simp add: word_less_nat_alt)
      moreover from False have "unat (memoryTypeCount mp) \<le> unat (t + 1)"
        by (simp add: word_less_nat_alt)
      ultimately have "t + 1 = memoryTypeCount mp" by (simp add: word_unat_eq_iff)
      with False IH show ?thesis by simp
    qed
    have "\<not> suitable mp reqs props j" if "unat t \<le> j" for j
    proof (cases "j = unat t")
      case True with ns show ?thesis by simp
    next
      case False
      with that dec(2) have "unat (t + 1) \<le> j" by simp
      with IH show ?thesis by blast
    qed
    with IH(1) u lt show ?thesis by simp
  qed
qed

lemma find_loop_found:
  assumes "find_loop mp reqs props t = Some (0, u)"
  shows "unat t \<le> unat u \<and> suitable mp reqs props (unat u) \<and>
     (\<forall>j. unat t \<le> j \<and> j < unat u \<longrightarrow> \<not> suitable mp reqs props j)"
  using assms
proof (induction "unat (memoryTypeCount mp) - unat t" arbitrary: t rule: less_induct)
  case less
  show ?case
  proof (cases "t < memoryTypeCount mp")
    case False
    with less.prems show ?thesis by (simp add: find_loop_exit)
  next
    case lt: True
    note dec = measure_dec[OF lt]
    from lt have ltn: "unat t < unat (memoryTypeCount mp)" by (simp add: word_less_nat_alt)
    show ?thesis
    proof (cases "find_loop mp reqs props (t + 1) = Some (0, u) \<and> \<not> suitable mp reqs props (unat t)")
      case True
      from less.hyps[OF dec(1) True[THEN conjunct1]]
      have IH: "unat (t + 1) \<le> unat u" "suitable mp reqs props (unat u)"
        "\<forall>j. unat (t + 1) \<le> j \<and> j < unat u \<longrightarrow> \<not> suitable mp reqs props j" by simp_all
      have "\<not> suitable mp reqs props j" if "unat t \<le> j \<and> j < unat u" for j
      proof (cases "j = unat t")
        case True with \<open>find_loop mp reqs props (t + 1) = Some (0, u) \<and> \<not> suitable mp reqs props (unat t)\<close>
        show ?thesis by simp
      next
        case False
        with that dec(2) have "unat (t + 1) \<le> j \<and> j < unat u" by simp
        with IH show ?thesis by blast
      qed
      with IH dec(2) show ?thesis by simp
    next
      case False
      with less.prems ltn have "u = t \<and> suitable mp reqs props (unat t)"
        unfolding find_loop_unfold[OF lt] suitable_def
        by (auto split: if_splits)
      then show ?thesis by auto
    qed
  qed
qed

lemma find_loop_total:
  assumes "unat (memoryTypeCount mp) \<le> 32" "unat (memoryTypeCount mp) \<le> length (memoryTypes mp)"
  shows "\<exists>r u. find_loop mp reqs props t = Some (r, u) \<and> (r = 0 \<or> r = - 1)"
proof (induction "unat (memoryTypeCount mp) - unat t" arbitrary: t rule: less_induct)
  case less
  show ?case
  proof (cases "t < memoryTypeCount mp")
    case False
    then show ?thesis by (simp add: find_loop_exit)
  next
    case lt: True
    note dec = measure_dec[OF lt]
    from lt have ltn: "unat t < unat (memoryTypeCount mp)" by (simp add: word_less_nat_alt)
    with assms have b: "unat t < 32" "unat t < length (memoryTypes mp)" by simp_all
    from less.hyps[OF dec(1)] find_loop_step[OF lt b, of reqs props]
    show ?thesis by simp
  qed
qed


lemma find_appropriate_memory_type_eq:
  "find_appropriate_memory_type mp reqs props type0 = find_loop mp reqs props 0"
  by (simp add: find_appropriate_memory_type_def)

lemma wf_bounds:
  "wf_memory_properties mp \<Longrightarrow>
     unat (memoryTypeCount mp) \<le> 32 \<and> unat (memoryTypeCount mp) \<le> length (memoryTypes mp)"
  by (simp add: wf_memory_properties_def VK_MAX_MEMORY_TYPES_def)

lemma find_total:
  assumes wf: "wf_memory_properties mp"
  shows "\<exists>r t. find_appropriate_memory_type mp reqs props type0 = Some (r, t) \<and> (r = 0 \<or> r = - 1)"
  using find_loop_total[OF wf_bounds[OF wf, THEN conjunct1] wf_bounds[OF wf, THEN conjunct2]]
  by (simp add: find_appropriate_memory_type_eq)

lemma find_found:
  assumes "find_appropriate_memory_type mp reqs props type0 = Some (0, t)"
  shows "suitable mp reqs props (unat t) \<and> (\<forall>j < unat t. \<not> suitable mp reqs props j)"
  using find_loop_found[of mp reqs props 0 t] assms
  by (simp add: find_appropriate_memory_type_eq)

lemma find_failed_count:
  assumes "find_appropriate_memory_type mp reqs props type0 = Some (r, t)" "r \<noteq> 0"
  shows "r = - 1 \<and> t = memoryTypeCount mp \<and> (\<forall>i. \<not> suitable mp reqs props i)"
proof -
  from assms have f: "find_loop mp reqs props 0 = Some (r, t)"
    by (simp add: find_appropriate_memory_type_eq)
  from find_loop_not_found[OF f assms(2)] have nf: "r = - 1"
    "t = (if 0 < memoryTypeCount mp then memoryTypeCount mp else 0)"
    "\<forall>j. \<not> suitable mp reqs props j"
    by simp_all
  have "t = memoryTypeCount mp"
  proof (cases "0 < memoryTypeCount mp")
    case True with nf show ?thesis by simp
  next
    case False
    then have "memoryTypeCount mp = 0" by (simp add: word_gt_0)
    with nf show ?thesis by simp
  qed
  with nf show ?thesis by simp
qed

lemma find_found_iff:
  assumes wf: "wf_memory_properties mp"
  shows "find_appropriate_memory_type mp reqs props type0 = Some (0, t) \<longleftrightarrow>
           suitable mp reqs props (unat t) \<and> (\<forall>j < unat t. \<not> suitable mp reqs props j)"
proof
  assume "find_appropriate_memory_type mp reqs props type0 = Some (0, t)"
  then show "suitable mp reqs props (unat t) \<and> (\<forall>j < unat t. \<not> suitable mp reqs props j)"
    by (rule find_found)
next
  assume a: "suitable mp reqs props (unat t) \<and> (\<forall>j < unat t. \<not> suitable mp reqs props j)"
  obtain r u where ru: "find_appropriate_memory_type mp reqs props type0 = Some (r, u)"
    using find_total[OF wf] by blast
  have "r = 0"
  proof (rule ccontr)
    assume "r \<noteq> 0"
    from find_failed_count[OF ru this] a show False by simp
  qed
  with ru have f: "find_appropriate_memory_type mp reqs props type0 = Some (0, u)" by simp
  from find_found[OF f]
  have b: "suitable mp reqs props (unat u) \<and> (\<forall>j < unat u. \<not> suitable mp reqs props j)" .
  have "unat u = unat t"
  proof (rule ccontr)
    assume "unat u \<noteq> unat t"
    then consider "unat u < unat t" | "unat t < unat u" by linarith
    then show False using a b by cases auto
  qed
  then have "u = t" by (simp add: word_unat_eq_iff)
  with f show "find_appropriate_memory_type mp reqs props type0 = Some (0, t)" by simp
qed

lemma find_failed_iff:
  assumes wf: "wf_memory_properties mp"
  shows "find_appropriate_memory_type mp reqs props type0 = Some (- 1, t) \<longleftrightarrow>
           (\<forall>i. \<not> suitable mp reqs props i) \<and> t = memoryTypeCount mp"
proof
  assume "find_appropriate_memory_type mp reqs props type0 = Some (- 1, t)"
  from find_failed_count[OF this]
  show "(\<forall>i. \<not> suitable mp reqs props i) \<and> t = memoryTypeCount mp" by simp
next
  assume a: "(\<forall>i. \<not> suitable mp reqs props i) \<and> t = memoryTypeCount mp"
  obtain r u where ru: "find_appropriate_memory_type mp reqs props type0 = Some (r, u)"
    using find_total[OF wf] by blast
  have "r \<noteq> 0"
  proof
    assume "r = 0"
    with ru find_found[of mp reqs props type0 u] a show False by simp
  qed
  from find_failed_count[OF ru this] ru a
  show "find_appropriate_memory_type mp reqs props type0 = Some (- 1, t)" by simp
qed

lemma wf_example_memory_properties: "wf_memory_properties example_memory_properties"
  by (simp add: wf_memory_properties_def example_memory_properties_def
      VK_MAX_MEMORY_TYPES_def VK_MAX_MEMORY_HEAPS_def)

lemmas memory_property_bits =
  VK_MEMORY_PROPERTY_DEVICE_LOCAL_BIT_def VK_MEMORY_PROPERTY_HOST_VISIBLE_BIT_def
  VK_MEMORY_PROPERTY_HOST_COHERENT_BIT_def

lemma suitable_example:
  "suitable example_memory_properties example_requirements props i \<longleftrightarrow>
     (i = 1 \<and> VK_MEMORY_PROPERTY_DEVICE_LOCAL_BIT AND props = props) \<or>
     (i = 2 \<and> (VK_MEMORY_PROPERTY_DEVICE_LOCAL_BIT OR VK_MEMORY_PROPERTY_HOST_VISIBLE_BIT) AND props = props)"
proof -
  have lt3: "i < 3 \<longleftrightarrow> i = 0 \<or> i = 1 \<or> i = 2" by auto
  show ?thesis
    unfolding suitable_def has_all_flags_iff
    by (auto simp: example_memory_properties_def example_requirements_def lt3)
qed

lemma memoryTypeCount_example: "memoryTypeCount example_memory_properties = 3"
  by (simp add: example_memory_properties_def)

lemma find_example_host_coherent:
  "find_appropriate_memory_type example_memory_properties example_requirements
     VK_MEMORY_PROPERTY_HOST_COHERENT_BIT type0 = Some (- 1, 3)"
proof -
  have "\<forall>i. \<not> suitable example_memory_properties example_requirements
          VK_MEMORY_PROPERTY_HOST_COHERENT_BIT i"
    by (simp add: suitable_example memory_property_bits)
  with find_failed_iff[OF wf_example_memory_properties, of example_requirements
      VK_MEMORY_PROPERTY_HOST_COHERENT_BIT type0 3] memoryTypeCount_example
  show ?thesis by simp
qed

lemma find_example_device_local:
  "find_appropriate_memory_type example_memory_properties example_requirements
     VK_MEMORY_PROPERTY_DEVICE_LOCAL_BIT type0 = Some (0, 1)"
proof -
  have "suitable example_memory_properties example_requirements
          VK_MEMORY_PROPERTY_DEVICE_LOCAL_BIT (unat (1 :: 32 word)) \<and>
        (\<forall>j < unat (1 :: 32 word). \<not> suitable example_memory_properties example_requirements
          VK_MEMORY_PROPERTY_DEVICE_LOCAL_BIT j)"
    by (simp add: suitable_example memory_property_bits)
  with find_found_iff[OF wf_example_memory_properties, of example_requirements
      VK_MEMORY_PROPERTY_DEVICE_LOCAL_BIT type0 1]
  show ?thesis by simp
qed

lemma find_example_host_visible:
  "find_appropriate_memory_type example_memory_properties example_requirements
     VK_MEMORY_PROPERTY_HOST_VISIBLE_BIT type0 = Some (0, 2)"
proof -
  have "suitable example_memory_properties example_requirements
          VK_MEMORY_PROPERTY_HOST_VISIBLE_BIT (unat (2 :: 32 word)) \<and>
        (\<forall>j < unat (2 :: 32 word). \<not> suitable example_memory_properties example_requirements
          VK_MEMORY_PROPERTY_HOST_VISIBLE_BIT j)"
    by (simp add: suitable_example memory_property_bits)
  with find_found_iff[OF wf_example_memory_properties, of example_requirements
      VK_MEMORY_PROPERTY_HOST_VISIBLE_BIT type0 2]
  show ?thesis by simp
qed

text \<open>
  Claim C1. On a well-formed memory-type table, \<open>find_appropriate_memory_type\<close> returns 0
  with index \<open>t\<close> exactly when \<open>t\<close> is the lowest index whose bit is set in the bitmask
  and whose property flags are a superset of the required flags; it returns \<open>-1\<close> exactly
  when no index satisfies both conditions; and it always returns one of the two. There is
  no fallback to a weaker set of flags.
\<close>

theorem find_appropriate_memory_type_lowest:
  assumes "wf_memory_properties mp"
  shows "(find_appropriate_memory_type mp reqs props type0 = Some (0, t) \<longleftrightarrow>
            suitable mp reqs props (unat t) \<and> (\<forall>j < unat t. \<not> suitable mp reqs props j)) \<and>
         (find_appropriate_memory_type mp reqs props type0 = Some (- 1, t) \<longleftrightarrow>
            (\<forall>i. \<not> suitable mp reqs props i) \<and> t = memoryTypeCount mp) \<and>
         (\<exists>r u. find_appropriate_memory_type mp reqs props type0 = Some (r, u) \<and>
                (r = 0 \<or> r = - 1))"
  using find_found_iff[OF assms] find_failed_iff[OF assms] find_total[OF assms] by blast

theorem find_appropriate_memory_type_lowest_witness:
  "wf_memory_properties example_memory_properties \<and>
   find_appropriate_memory_type example_memory_properties example_requirements
     VK_MEMORY_PROPERTY_DEVICE_LOCAL_BIT 7 = Some (0, 1) \<and>
   find_appropriate_memory_type example_memory_properties example_requirements
     VK_MEMORY_PROPERTY_HOST_COHERENT_BIT 7 = Some (- 1, 3)"
proof -
  note lowest = find_appropriate_memory_type_lowest[OF wf_example_memory_properties,
      of example_requirements _ 7]
  have 1: "find_appropriate_memory_type example_memory_properties example_requirements
     VK_MEMORY_PROPERTY_DEVICE_LOCAL_BIT 7 = Some (0, 1)"
    using lowest[of VK_MEMORY_PROPERTY_DEVICE_LOCAL_BIT 1]
    by (simp add: suitable_example memory_property_bits)
  have 2: "find_appropriate_memory_type example_memory_properties example_requirements
     VK_MEMORY_PROPERTY_HOST_COHERENT_BIT 7 = Some (- 1, 3)"
    using lowest[of VK_MEMORY_PROPERTY_HOST_COHERENT_BIT 3] memoryTypeCount_example
    by (simp add: suitable_example memory_property_bits)
  from 1 2 wf_example_memory_properties show ?thesis by simp
qed

text \<open>
  Claim C10. \<open>find_appropriate_memory_type\<close> always writes its out-parameter: the result
  does not depend on what \<open>*type\<close> held before the call; whenever it returns, it returns 0
  or \<open>-1\<close>, and with \<open>-1\<close> the out-parameter equals \<open>memoryTypeCount\<close>; on a well-formed
  table it does return, and with 0 the out-parameter is the selected (lowest suitable) index.
\<close>

theorem find_appropriate_memory_type_writes_type:
  "find_appropriate_memory_type mp reqs props type0 =
     find_appropriate_memory_type mp reqs props type0' \<and>
   (\<forall>r t. find_appropriate_memory_type mp reqs props type0 = Some (r, t) \<longrightarrow>
      (r = 0 \<or> r = - 1) \<and> (r = - 1 \<longrightarrow> t = memoryTypeCount mp)) \<and>
   (wf_memory_properties mp \<longrightarrow>
      (\<exists>r t. find_appropriate_memory_type mp reqs props type0 = Some (r, t) \<and>
         (r = 0 \<longrightarrow> suitable mp reqs props (unat t) \<and>
                  (\<forall>j < unat t. \<not> suitable mp reqs props j))))"
proof (intro conjI allI impI)
  show "find_appropriate_memory_type mp reqs props type0 =
     find_appropriate_memory_type mp reqs props type0'"
    by (simp only: find_appropriate_memory_type_eq)
next
  fix r t assume a: "find_appropriate_memory_type mp reqs props type0 = Some (r, t)"
  show "r = 0 \<or> r = - 1"
  proof (cases "r = 0")
    case True then show ?thesis by simp
  next
    case False
    from find_failed_count[OF a False] show ?thesis by simp
  qed
next
  fix r t assume a: "find_appropriate_memory_type mp reqs props type0 = Some (r, t)"
    and r: "r = - 1"
  from r have "r \<noteq> 0" by simp
  from find_failed_count[OF a this] show "t = memoryTypeCount mp" by simp
next
  assume wf: "wf_memory_properties mp"
  from find_total[OF wf] obtain r t where
    rt: "find_appropriate_memory_type mp reqs props type0 = Some (r, t)" by blast
  have "r = 0 \<longrightarrow> suitable mp reqs props (unat t) \<and> (\<forall>j < unat t. \<not> suitable mp reqs props j)"
  proof
    assume "r = 0"
    with rt have "find_appropriate_memory_type mp reqs props type0 = Some (0, t)" by simp
    then show "suitable mp reqs props (unat t) \<and> (\<forall>j < unat t. \<not> suitable mp reqs props j)"
      by (rule find_found)
  qed
  with rt show "\<exists>r t. find_appropriate_memory_type mp reqs props type0 = Some (r, t) \<and>
         (r = 0 \<longrightarrow> suitable mp reqs props (unat t) \<and>
                  (\<forall>j < unat t. \<not> suitable mp reqs props j))" by blast
qed

theorem find_appropriate_memory_type_writes_type_witness:
  "find_appropriate_memory_type example_memory_properties example_requirements
     VK_MEMORY_PROPERTY_HOST_COHERENT_BIT 7 = Some (- 1, 3) \<and>
   memoryTypeCount example_memory_properties = 3 \<and>
   find_appropriate_memory_type example_memory_properties example_requirements
     VK_MEMORY_PROPERTY_HOST_COHERENT_BIT 7 =
   find_appropriate_memory_type example_memory_properties example_requirements
     VK_MEMORY_PROPERTY_HOST_COHERENT_BIT 3"
  using find_appropriate_memory_type_writes_type[of example_memory_properties
      example_requirements VK_MEMORY_PROPERTY_HOST_COHERENT_BIT 7 3]
    find_example_host_coherent[of 7] memoryTypeCount_example
  by simp

subsection \<open>The pixel\<close>

lemma snd_seq_None: "snd (seq a b) = None \<longleftrightarrow> snd a = None \<and> snd b = None"
  by (simp add: seq_def split: option.splits)

lemma snd_seq: "snd (seq a b) = (case snd a of None \<Rightarrow> snd b | Some h \<Rightarrow> Some h)"
  by (simp add: seq_def split: option.splits)

lemma fst_seq: "fst (seq a b) = fst a @ guard (snd a = None) (fst b)"
  by (simp add: seq_def guard_def split: option.splits)

lemma prim_simps:
  "fst skip = []" "snd skip = None"
  "fst (call c) = [Call c]" "snd (call c) = None"
  "fst (printf f a) = [Printf f a]" "snd (printf f a) = None"
  "fst (puts s) = [Puts s]" "snd (puts s) = None"
  "fst (exit_process n) = []" "snd (exit_process n) = Some (Exited n)"
  "fst undefined_behaviour = []" "snd undefined_behaviour = Some Undefined"
  by (simp_all add: skip_def call_def printf_def puts_def exit_process_def undefined_behaviour_def)

lemma fst_check: "fst (check c s) = guard (c = 0) [failure_report s]"
  by (simp add: check_def fst_seq prim_simps guard_def failure_report_def)

lemma snd_check_None: "snd (check c s) = None \<longleftrightarrow> c \<noteq> 0"
  by (simp add: check_def snd_seq prim_simps)

lemma snd_check: "snd (check c s) = (if c = 0 then Some (Exited (- 1)) else None)"
  by (simp add: check_def snd_seq prim_simps)

lemma and_ff: "(w :: 32 word) AND 0xff = take_bit 8 w"
proof -
  have "(0xff :: 32 word) = mask 8" by (simp add: mask_eq_exp_minus_1)
  then show ?thesis by (simp only: take_bit_eq_mask)
qed

lemma bit_channels:
  "bit (red p) n \<longleftrightarrow> n < 8 \<and> bit p n"
  "bit (green p) n \<longleftrightarrow> n < 8 \<and> bit p (8 + n)"
  "bit (blue p) n \<longleftrightarrow> n < 8 \<and> bit p (16 + n)"
  "bit (alpha p) n \<longleftrightarrow> n < 8 \<and> bit p (24 + n)"
  unfolding red_def green_def blue_def alpha_def and_ff
  by (auto simp: bit_ucast_iff bit_take_bit_iff bit_drop_bit_eq add.commute)

lemma bit_little_endian:
  "bit (little_endian_u32 b0 b1 b2 b3) n \<longleftrightarrow>
     (n < 8 \<and> bit b0 n) \<or> (8 \<le> n \<and> n < 16 \<and> bit b1 (n - 8)) \<or>
     (16 \<le> n \<and> n < 24 \<and> bit b2 (n - 16)) \<or> (24 \<le> n \<and> n < 32 \<and> bit b3 (n - 24))"
  unfolding little_endian_u32_def
  by (auto simp: bit_or_iff bit_push_bit_iff bit_ucast_iff dest: bit_imp_le_length)

lemma channels_little_endian:
  "little_endian_u32 (red p) (green p) (blue p) (alpha p) = p"
proof (rule bit_word_eqI)
  fix n assume "n < LENGTH(32)"
  then have n: "n < 32" by simp
  consider "n < 8" | "8 \<le> n \<and> n < 16" | "16 \<le> n \<and> n < 24" | "24 \<le> n \<and> n < 32"
    using n by linarith
  then show "bit (little_endian_u32 (red p) (green p) (blue p) (alpha p)) n = bit p n"
    by cases (auto simp: bit_little_endian bit_channels)
qed

lemma channels_of_little_endian:
  "red (little_endian_u32 b0 b1 b2 b3) = b0"
  "green (little_endian_u32 b0 b1 b2 b3) = b1"
  "blue (little_endian_u32 b0 b1 b2 b3) = b2"
  "alpha (little_endian_u32 b0 b1 b2 b3) = b3"
  by (rule bit_word_eqI; simp add: bit_channels bit_little_endian)+

lemma yellow_little_endian: "little_endian_u32 0xFF 0xFF 0 0xFF = 0xFF00FFFF"
  by (simp add: little_endian_u32_def)

lemma yellow_channels:
  "p = 0xFF00FFFF \<longleftrightarrow> red p = 0xFF \<and> green p = 0xFF \<and> blue p = 0 \<and> alpha p = 0xFF"
proof
  assume "p = 0xFF00FFFF"
  then have "p = little_endian_u32 0xFF 0xFF 0 0xFF" by (simp only: yellow_little_endian)
  then show "red p = 0xFF \<and> green p = 0xFF \<and> blue p = 0 \<and> alpha p = 0xFF"
    by (simp only: channels_of_little_endian simp_thms)
next
  assume a: "red p = 0xFF \<and> green p = 0xFF \<and> blue p = 0 \<and> alpha p = 0xFF"
  have "p = little_endian_u32 (red p) (green p) (blue p) (alpha p)"
    by (simp only: channels_little_endian)
  also have "\<dots> = little_endian_u32 0xFF 0xFF 0 0xFF" using a by simp
  finally show "p = 0xFF00FFFF" by (simp only: yellow_little_endian)
qed

lemma red_example: "red 0xFF00FFFE = 0xFE"
proof -
  have "little_endian_u32 0xFE 0xFF 0 0xFF = 0xFF00FFFE" by (simp add: little_endian_u32_def)
  then have "red 0xFF00FFFE = red (little_endian_u32 0xFE 0xFF 0 0xFF)" by simp
  then show ?thesis by (simp only: channels_of_little_endian)
qed


lemma snd_validate:
  "snd (validate p) = None \<longleftrightarrow> red p = 0xFF \<and> green p = 0xFF \<and> blue p = 0 \<and> alpha p = 0xFF"
proof -
  have u: "uint w = 255 \<longleftrightarrow> w = 255" "uint w = 0 \<longleftrightarrow> w = 0" for w :: "8 word"
    by (simp_all add: word_uint_eq_iff)
  show ?thesis
    unfolding validate_def block.simps
    by (simp add: snd_seq_None prim_simps snd_check_None u)
qed

lemma snd_validate_cases:
  "snd (validate p) = None \<or> snd (validate p) = Some (Exited (- 1))"
  unfolding validate_def block.simps
  by (simp add: snd_seq prim_simps snd_check split: option.splits)

text \<open>
  Claim C2. Validation succeeds if and only if the 32-bit value read at the mapped address
  is \<open>0xFF00FFFF\<close>, that is, if and only if red = 0xFF, green = 0xFF, blue = 0x00 and
  alpha = 0xFF; otherwise it exits with status \<open>-1\<close>. The four channels are the bytes of
  the value in little-endian order: byte 0 is red, byte 1 green, byte 2 blue, byte 3 alpha.
\<close>

theorem validate_accepts_only_yellow:
  "(snd (validate pixel) = None \<longleftrightarrow> pixel = 0xFF00FFFF) \<and>
   (pixel = 0xFF00FFFF \<longleftrightarrow>
      red pixel = 0xFF \<and> green pixel = 0xFF \<and> blue pixel = 0 \<and> alpha pixel = 0xFF) \<and>
   (snd (validate pixel) = None \<or> snd (validate pixel) = Some (Exited (- 1))) \<and>
   little_endian_u32 (red pixel) (green pixel) (blue pixel) (alpha pixel) = pixel \<and>
   red (little_endian_u32 b0 b1 b2 b3) = b0 \<and>
   green (little_endian_u32 b0 b1 b2 b3) = b1 \<and>
   blue (little_endian_u32 b0 b1 b2 b3) = b2 \<and>
   alpha (little_endian_u32 b0 b1 b2 b3) = b3"
  using snd_validate[of pixel] yellow_channels[of pixel] snd_validate_cases[of pixel]
  by (simp only: channels_little_endian channels_of_little_endian simp_thms)

theorem validate_accepts_only_yellow_witness:
  "snd (validate 0xFF00FFFF) = None \<and> snd (validate 0xFF00FFFE) = Some (Exited (- 1)) \<and>
   red 0xFF00FFFE = 0xFE \<and> little_endian_u32 0xFF 0xFF 0 0xFF = 0xFF00FFFF"
proof -
  have ne: "(0xFF00FFFE :: 32 word) \<noteq> 0xFF00FFFF" by simp
  from validate_accepts_only_yellow[of "0xFF00FFFF"]
  have 1: "snd (validate 0xFF00FFFF) = None" by blast
  from validate_accepts_only_yellow[of "0xFF00FFFE"] ne
  have 2: "snd (validate 0xFF00FFFE) = Some (Exited (- 1))" by blast
  from 1 2 red_example yellow_little_endian show ?thesis by (simp only: simp_thms)
qed

end
